theory Spec2Isabelle
  imports Main "HOL-Library.AList" "HOL-Library.Sublist"
begin

section \<open>Python values, exceptions and the request's multidict\<close>

text \<open>
  The forms code is dynamically typed: a raw value read from the request may be a
  string, a list, an uploaded file or anything else. \<open>PStr\<close> is a \<open>str\<close> (a sequence of
  bytes), \<open>PUnicode\<close> a \<open>unicode\<close> (a sequence of code points); both are instances of
  \<open>basestring\<close>. \<open>PFile\<close> stands for a \<open>cgi.FieldStorage\<close> or an object with a \<open>read\<close>
  attribute, \<open>PObj\<close> for an instance of any other class (one that defines no
  conversion, no comparison and no truth value of its own). Dictionaries are keyed by
  \<open>str\<close> and keep the order of insertion.
\<close>

datatype pyval =
    PNone
  | PStr string
  | PUnicode "nat list"
  | PInt int
  | PList "pyval list"
  | PTuple "pyval list"
  | PDict "(string \<times> pyval) list"
  | PFile nat
  | PObj nat

datatype error =
    KeyError | TypeError | ValueError | AttributeError | AssertionError
  | RuntimeError | UnicodeDecodeError | UnicodeEncodeError

type_synonym errors = "string \<rightharpoonup> string"

text \<open>
  A converter (\<open>convs.Converter\<close> and its subclasses) is not part of the sources at
  hand; a field is given its converter as a parameter. \<open>conv_accept value errors\<close>
  is \<open>conv.accept(value)\<close>: it returns the converted value and may record a validation
  failure in \<open>form.errors\<close>. \<open>accept_silent value\<close> is \<open>conv.accept(value, silent=True)\<close>,
  which records nothing.
\<close>

record converter =
  multiple :: bool
  from_python :: "pyval \<Rightarrow> pyval"
  conv_accept :: "pyval \<Rightarrow> errors \<Rightarrow> pyval \<times> errors"
  accept_silent :: "pyval \<Rightarrow> pyval"

datatype widget = Widget string

text \<open>
  What \<open>BaseField.__init__\<close> stores: the name, the converter, the widget (\<open>None\<close> when
  the attribute is false in a boolean test) and the optional \<open>initial\<close> attribute.
  \<open>permissions\<close> is the value of \<open>perm_getter.get_perms(self)\<close>; the \<open>FieldPerm\<close>
  class is not part of the sources at hand, so its result is a parameter of the field.
\<close>

record attrs =
  name :: string
  conv :: converter
  permissions :: string
  widget :: "widget option"
  initial :: "pyval option"

text \<open>
  The elements of a \<open>fields\<close> list are instances of \<open>BaseField\<close>, of \<open>FieldBlock\<close>
  (a subclass of \<open>NoFieldWidget\<close>), of \<open>NoFieldWidget\<close> itself, or of any other class.
\<close>

datatype field =
    Field attrs
  | FileField attrs
  | FieldSet attrs "item list"
  | FieldList attrs field
and item =
    BaseField field
  | FieldBlock string "item list"
  | NoFieldWidget widget
  | Other

fun field_attrs :: "field \<Rightarrow> attrs" where
  "field_attrs (Field a) = a"
| "field_attrs (FileField a) = a"
| "field_attrs (FieldSet a fs) = a"
| "field_attrs (FieldList a f) = a"

section \<open>The two pairs of partition helpers\<close>

text \<open>\<open>HasFields.get_fields\<close> of \<open>base.py\<close>: it raises on an element of any other class.\<close>

fun get_fields :: "item list \<Rightarrow> error + item list" where
  "get_fields [] = Inr []"
| "get_fields (BaseField f # lst) = map_sum id (\<lambda>r. BaseField f # r) (get_fields lst)"
| "get_fields (FieldBlock t fs # lst) = map_sum id (\<lambda>r. fs @ r) (get_fields lst)"
| "get_fields (NoFieldWidget w # lst) = get_fields lst"
| "get_fields (Other # lst) = Inl RuntimeError"

text \<open>
  \<open>HasFields.get_widgets\<close> of \<open>base.py\<close>. A field contributes its widget (\<open>Inl\<close>),
  a \<open>NoFieldWidget\<close> instance contributes itself (\<open>Inr\<close>).
\<close>

fun get_widgets :: "item list \<Rightarrow> (widget + item) list" where
  "get_widgets [] = []"
| "get_widgets (BaseField f # lst) =
     (case widget (field_attrs f) of
        Some w \<Rightarrow> Inl w # get_widgets lst
      | None \<Rightarrow> get_widgets lst)"
| "get_widgets (FieldBlock t fs # lst) = Inr (FieldBlock t fs) # get_widgets lst"
| "get_widgets (NoFieldWidget w # lst) = Inr (NoFieldWidget w) # get_widgets lst"
| "get_widgets (Other # lst) = get_widgets lst"

text \<open>\<open>_get_fields\<close> of \<open>fields.py\<close>: an element of any other class is dropped.\<close>

fun get_fields' :: "item list \<Rightarrow> item list" where
  "get_fields' [] = []"
| "get_fields' (BaseField f # lst) = BaseField f # get_fields' lst"
| "get_fields' (FieldBlock t fs # lst) = fs @ get_fields' lst"
| "get_fields' (i # lst) = get_fields' lst"

text \<open>\<open>_get_widgets\<close> of \<open>fields.py\<close>.\<close>

fun get_widgets' :: "item list \<Rightarrow> (widget + item) list" where
  "get_widgets' [] = []"
| "get_widgets' (BaseField f # lst) =
     (case widget (field_attrs f) of
        Some w \<Rightarrow> Inl w # get_widgets' lst
      | None \<Rightarrow> get_widgets' lst)"
| "get_widgets' (FieldBlock t fs # lst) = Inr (FieldBlock t fs) # get_widgets' lst"
| "get_widgets' (NoFieldWidget w # lst) = Inr (NoFieldWidget w) # get_widgets' lst"
| "get_widgets' (Other # lst) = get_widgets' lst"

text \<open>
  The result the specification describes for the partition of fields: the \<open>BaseField\<close>
  elements in order, each \<open>FieldBlock\<close> replaced by its fields.
\<close>

fun spec_fields_of :: "item \<Rightarrow> item list" where
  "spec_fields_of (BaseField f) = [BaseField f]"
| "spec_fields_of (FieldBlock t fs) = fs"
| "spec_fields_of i = []"

definition spec_fields :: "item list \<Rightarrow> item list" where
  "spec_fields lst = concat (map spec_fields_of lst)"

section \<open>Byte strings and unicode strings\<close>

text \<open>
  Python 2 has two string types. A \<open>str\<close> is a sequence of bytes (\<open>string\<close> here, a
  \<open>char\<close> being a byte); a \<open>unicode\<close> is a sequence of code points, each below
  \<open>0x110000\<close>.
\<close>

datatype pytext = Str string | Unicode "nat list"

definition utf8_char :: "nat \<Rightarrow> string" where
  "utf8_char c =
     (if c < 0x80 then [char_of c]
      else if c < 0x800 then
        [char_of (0xC0 + c div 0x40), char_of (0x80 + c mod 0x40)]
      else if c < 0x10000 then
        [char_of (0xE0 + c div 0x1000), char_of (0x80 + c div 0x40 mod 0x40),
         char_of (0x80 + c mod 0x40)]
      else
        [char_of (0xF0 + c div 0x40000), char_of (0x80 + c div 0x1000 mod 0x40),
         char_of (0x80 + c div 0x40 mod 0x40), char_of (0x80 + c mod 0x40)])"

definition utf8 :: "nat list \<Rightarrow> string" where
  "utf8 cs = concat (map utf8_char cs)"

definition ascii :: "string \<Rightarrow> bool" where
  "ascii s = list_all (\<lambda>c. (of_char c :: nat) < 0x80) s"

text \<open>
  \<open>x.encode('utf-8')\<close>. On a \<open>unicode\<close> it is the UTF-8 encoding. On a \<open>str\<close>
  Python 2 first decodes the bytes with the ASCII codec, which raises
  \<open>UnicodeDecodeError\<close> on a byte above \<open>0x7f\<close>, and then encodes the result.
\<close>

fun encode_utf8 :: "pytext \<Rightarrow> error + string" where
  "encode_utf8 (Unicode cs) = Inr (utf8 cs)"
| "encode_utf8 (Str s) = (if ascii s then Inr s else Inl UnicodeDecodeError)"

section \<open>The WSGI handler (web/wsgi.py)\<close>

definition MOVED_PERMANENTLY :: int where "MOVED_PERMANENTLY = 301"
definition SEE_OTHER :: int where "SEE_OTHER = 303"
definition NOT_FOUND :: int where "NOT_FOUND = 404"

record response =
  status :: int
  headers :: "(string \<times> string) list"
  body :: string

text \<open>An \<open>HttpException\<close> carries a status and a URL, a \<open>str\<close> or a \<open>unicode\<close>.\<close>

datatype http_exception = HttpException int pytext

text \<open>
  What running the wrapped application comes to: it returns \<open>STOP\<close> or a request
  context, or raises an \<open>HttpException\<close> or another exception.
\<close>

datatype 'c outcome = STOP | Returned 'c | RaisedHttp http_exception | Raised error

fun process_http_exception :: "response \<Rightarrow> http_exception \<Rightarrow> response" where
  "process_http_exception response (HttpException e_status e_url) =
     (let response = response\<lparr>status := e_status\<rparr> in
      if e_status \<in> {MOVED_PERMANENTLY, SEE_OTHER} then
        (let url = (case e_url of Unicode cs \<Rightarrow> utf8 cs | Str s \<Rightarrow> s)
         in response\<lparr>headers := headers response @ [(''Location'', url)]\<rparr>)
      else response)"

text \<open>
  \<open>WSGIHandler.__call__\<close>. \<open>RequestContext(env)\<close> (not part of the sources at hand)
  makes the context and its response: \<open>new_response env\<close> is that response. The
  application works on the context and may change the response before it returns or
  raises: \<open>app env response\<close> is its outcome together with the response as it left it.
  The result is what \<open>start_response\<close> is called with (status and headers) and the
  returned list of body parts.
\<close>

definition WSGIHandler_call ::
  "('e \<Rightarrow> response \<Rightarrow> 'c outcome \<times> response) \<Rightarrow> ('e \<Rightarrow> response) \<Rightarrow> 'e
   \<Rightarrow> error + (int \<times> (string \<times> string) list) \<times> string list" where
  "WSGIHandler_call app new_response env =
     (let response = new_response env in
      case app env response of
        (STOP, response) \<Rightarrow>
          (let response = response\<lparr>status := NOT_FOUND\<rparr>
           in Inr ((status response, headers response), [body response]))
      | (Returned rctx, response) \<Rightarrow>
          Inr ((status response, headers response), [body response])
      | (RaisedHttp e, response) \<Rightarrow>
          (let response = process_http_exception response e
           in Inr ((status response, headers response), [body response]))
      | (Raised e, response) \<Rightarrow> Inl e)"

section \<open>Passwords and the cookie authentication (auth.py)\<close>

text \<open>
  \<open>hashlib\<close> is a parameter: the names of the algorithms it supports and, for each of
  them, the hexadecimal digest of a byte string.
\<close>

record hashlib =
  algorithms :: "string list"
  hexdigest :: "string \<Rightarrow> string \<Rightarrow> string"

text \<open>
  \<open>encrypt_password\<close>. The algorithm is a \<open>str\<close>; \<open>random_salt\<close> is the value of
  \<open>os.urandom(3).encode('hex')[:5]\<close>, used when no salt is given. \<open>hashlib.new\<close>
  raises \<open>ValueError\<close> on an algorithm it does not support.
\<close>

definition encrypt_password ::
  "hashlib \<Rightarrow> string \<Rightarrow> pytext \<Rightarrow> string \<Rightarrow> pytext option \<Rightarrow> error + string" where
  "encrypt_password h random_salt raw_password algorithm salt =
     (let salt = (case salt of None \<Rightarrow> Str random_salt | Some s \<Rightarrow> s) in
      case encode_utf8 raw_password of
        Inl e \<Rightarrow> Inl e
      | Inr raw_password \<Rightarrow>
         (case encode_utf8 salt of
            Inl e \<Rightarrow> Inl e
          | Inr salt \<Rightarrow>
             (if algorithm \<notin> set (algorithms h) then Inl ValueError
              else (let hash = hexdigest h algorithm (salt @ raw_password)
                    in Inr (algorithm @ ''$'' @ salt @ ''$'' @ hash)))))"

text \<open>\<open>s.split(c)\<close> for a separator of one character.\<close>

fun split :: "char \<Rightarrow> string \<Rightarrow> string list" where
  "split c [] = [[]]"
| "split c (x # xs) =
     (if x = c then [] # split c xs
      else (case split c xs of p # ps \<Rightarrow> (x # p) # ps | [] \<Rightarrow> [[x]]))"

text \<open>
  \<open>check_password\<close>, on a stored \<open>str\<close>. Unpacking the split into three names raises
  \<open>ValueError\<close> unless there are exactly three parts.
\<close>

definition check_password ::
  "hashlib \<Rightarrow> string \<Rightarrow> pytext \<Rightarrow> string \<Rightarrow> error + bool" where
  "check_password h random_salt raw_password enc_password =
     (case split (CHR ''$'') enc_password of
        [algo, salt, hsh] \<Rightarrow>
          (case encrypt_password h random_salt raw_password algo (Some (Str salt)) of
             Inl e \<Rightarrow> Inl e
           | Inr enc \<Rightarrow> Inr (enc_password = enc))
      | _ \<Rightarrow> Inl ValueError)"

text \<open>
  The environment of a request, as far as the authentication reads and writes it: the
  request's cookies (\<open>unicode\<close> values under \<open>str\<close> names) and the \<open>user\<close> entry, which
  is absent (\<open>None\<close>) or holds a value (\<open>Some\<close>, \<open>Some PNone\<close> for Python's \<open>None\<close>).
\<close>

record env =
  cookies :: "string \<rightharpoonup> nat list"
  user :: "pyval option"

text \<open>
  Modelled from the spec: the pluggable key-value store of the sessions
  (\<open>insanities.storage.LocalMemStorage\<close> is not part of the sources at hand). \<open>get\<close>
  returns the value stored under a key or \<open>None\<close>, \<open>set\<close> stores a value and
  \<open>delete\<close> removes it; both report success.
\<close>

type_synonym storage = "string \<rightharpoonup> string"

definition storage_get :: "storage \<Rightarrow> string \<Rightarrow> string option" where
  "storage_get s k = s k"



text \<open>
  A \<open>CookieAuth\<close>: its cookie name and the \<open>identify_user\<close> it was given, a function of
  the application that returns a user or raises.
\<close>

record cookie_auth =
  cookie_name :: string
  identify_user :: "env \<Rightarrow> string \<Rightarrow> error + pyval"

text \<open>The \<open>finally: del env.user\<close> of \<open>handle\<close>: deleting an absent entry raises.\<close>

fun del_user :: "(error + 'r) \<times> env \<Rightarrow> (error + 'r) \<times> env" where
  "del_user (result, env) =
     (case user env of
        None \<Rightarrow> (Inl KeyError, env)
      | Some u \<Rightarrow> (result, env\<lparr>user := None\<rparr>))"

text \<open>
  \<open>'Authenticated: %r' % user\<close>, the argument of \<open>logger.debug\<close> in \<open>handle\<close>, is
  evaluated whatever the level of the logger. The operator takes a tuple on its right as
  the sequence of the values to format and raises \<open>TypeError\<close> unless the tuple has the
  one value the format asks for; any other object is the one value.
\<close>

fun format_raises :: "pyval \<Rightarrow> bool" where
  "format_raises (PTuple l) = (length l \<noteq> 1)"
| "format_raises v = False"

text \<open>
  \<open>CookieAuth.handle\<close>. The next handler gets the environment and the data, returns a
  result or raises, and leaves the environment as it changed it. \<open>handle\<close> only reads
  the storage. When \<open>identify_user\<close> or the formatting of the log message raises,
  \<open>env.user\<close> is not yet set and the next handler does not run.
\<close>

definition handle ::
  "cookie_auth \<Rightarrow> storage \<Rightarrow> env \<Rightarrow> 'd \<Rightarrow> (env \<Rightarrow> 'd \<Rightarrow> (error + 'r) \<times> env)
   \<Rightarrow> (error + 'r) \<times> env" where
  "handle self storage env data next_handler =
     (case (case cookies env (cookie_name self) of
              None \<Rightarrow> Inr PNone
            | Some key \<Rightarrow>
               (case storage_get storage (cookie_name self @ '':'' @ utf8 key) of
                  None \<Rightarrow> Inr PNone
                | Some user_identity \<Rightarrow> identify_user self env user_identity)) of
        Inl e \<Rightarrow> (Inl e, env)
      | Inr u \<Rightarrow>
          if format_raises u then (Inl TypeError, env)
          else del_user (next_handler (env\<lparr>user := Some u\<rparr>) data))"



section \<open>Builtins on Python values\<close>

text \<open>The truth value of an object in a boolean test.\<close>

fun py_truth :: "pyval \<Rightarrow> bool" where
  "py_truth PNone = False"
| "py_truth (PStr s) = (s \<noteq> [])"
| "py_truth (PUnicode cs) = (cs \<noteq> [])"
| "py_truth (PInt n) = (n \<noteq> 0)"
| "py_truth (PList l) = (l \<noteq> [])"
| "py_truth (PTuple l) = (l \<noteq> [])"
| "py_truth (PDict d) = (d \<noteq> [])"
| "py_truth (PFile n) = True"
| "py_truth (PObj n) = True"

text \<open>\<open>isinstance(value, basestring)\<close>.\<close>

fun is_basestring :: "pyval \<Rightarrow> bool" where
  "is_basestring (PStr s) = True"
| "is_basestring (PUnicode cs) = True"
| "is_basestring v = False"

text \<open>\<open>str(n)\<close> for a number that is not negative.\<close>

fun string_of_nat :: "nat \<Rightarrow> string" where
  "string_of_nat n =
     (if n < 10 then [char_of (48 + n)]
      else string_of_nat (n div 10) @ [char_of (48 + n mod 10)])"

declare string_of_nat.simps [simp del]

definition string_of_int :: "int \<Rightarrow> string" where
  "string_of_int i = (if i < 0 then ''-'' @ string_of_nat (nat (- i)) else string_of_nat (nat i))"

text \<open>\<open>d[key]\<close> for a string key: only a dictionary can be indexed by a string.\<close>

fun py_getitem :: "pyval \<Rightarrow> string \<Rightarrow> error + pyval" where
  "py_getitem (PDict d) k = (case map_of d k of None \<Rightarrow> Inl KeyError | Some v \<Rightarrow> Inr v)"
| "py_getitem v k = Inl TypeError"

text \<open>The elements that \<open>for v in value\<close> goes through.\<close>

fun py_iter :: "pyval \<Rightarrow> error + pyval list" where
  "py_iter (PList l) = Inr l"
| "py_iter (PTuple l) = Inr l"
| "py_iter (PStr s) = Inr (map (\<lambda>c. PStr [c]) s)"
| "py_iter (PUnicode cs) = Inr (map (\<lambda>c. PUnicode [c]) cs)"
| "py_iter (PDict d) = Inr (map (\<lambda>(k, v). PStr k) d)"
| "py_iter v = Inl TypeError"

text \<open>\<open>len(value)\<close>.\<close>

fun py_len :: "pyval \<Rightarrow> error + nat" where
  "py_len (PList l) = Inr (length l)"
| "py_len (PTuple l) = Inr (length l)"
| "py_len (PStr s) = Inr (length s)"
| "py_len (PUnicode cs) = Inr (length cs)"
| "py_len (PDict d) = Inr (length d)"
| "py_len v = Inl TypeError"

text \<open>
  A \<open>unicode\<close> of ASCII characters and the \<open>str\<close> of the same characters are equal
  and are the same key of a dictionary; \<open>str_key\<close> is that \<open>str\<close>.
\<close>

definition ascii_points :: "nat list \<Rightarrow> bool" where
  "ascii_points cs = list_all (\<lambda>c. c < 0x80) cs"

fun str_key :: "pyval \<Rightarrow> string option" where
  "str_key (PStr k) = Some k"
| "str_key (PUnicode cs) = (if ascii_points cs then Some (map char_of cs) else None)"
| "str_key v = None"

text \<open>
  \<open>dict(value)\<close>: a copy of a dictionary, or the dictionary of a sequence of pairs; a
  later pair overrides an earlier one. An element that cannot be iterated raises
  \<open>TypeError\<close>, one that has not two parts \<open>ValueError\<close>. The dictionaries of the
  model have \<open>str\<close> keys: a key that is no string raises \<open>TypeError\<close>, as a key that
  cannot be hashed does.
\<close>

fun dict_of_pairs :: "pyval list \<Rightarrow> (string \<times> pyval) list \<Rightarrow> error + (string \<times> pyval) list" where
  "dict_of_pairs [] d = Inr d"
| "dict_of_pairs (p # ps) d =
     (case py_iter p of
        Inl e \<Rightarrow> Inl TypeError
      | Inr [k, v] \<Rightarrow>
         (case str_key k of
            None \<Rightarrow> Inl TypeError
          | Some s \<Rightarrow> dict_of_pairs ps (AList.update s v d))
      | Inr _ \<Rightarrow> Inl ValueError)"

fun py_dict :: "pyval \<Rightarrow> error + (string \<times> pyval) list" where
  "py_dict (PDict d) = Inr d"
| "py_dict v = (case py_iter v of Inl e \<Rightarrow> Inl e | Inr l \<Rightarrow> dict_of_pairs l [])"

text \<open>
  The indices of \<open>FieldList.accept\<close>. \<open>int(index)\<close> accepts a number and some strings:
  which ones is the parameter \<open>int_str\<close>; on another string it raises \<open>ValueError\<close>
  (or \<open>UnicodeEncodeError\<close>, which is a \<open>ValueError\<close>). On a \<open>cgi.FieldStorage\<close> it
  raises \<open>AttributeError\<close>, on any other value \<open>TypeError\<close>. An \<open>index\<close> is a value that
  \<open>int\<close> has accepted.
\<close>

datatype index = IStr string | IUnicode "nat list" | IInt int

fun check_int :: "(pytext \<Rightarrow> bool) \<Rightarrow> pyval \<Rightarrow> error + index" where
  "check_int int_str (PStr s) = (if int_str (Str s) then Inr (IStr s) else Inl ValueError)"
| "check_int int_str (PUnicode cs) =
     (if int_str (Unicode cs) then Inr (IUnicode cs) else Inl ValueError)"
| "check_int int_str (PInt n) = Inr (IInt n)"
| "check_int int_str (PFile n) = Inl AttributeError"
| "check_int int_str v = Inl TypeError"

text \<open>\<open>str(index)\<close>: a \<open>unicode\<close> is encoded with the ASCII codec.\<close>

fun index_str :: "index \<Rightarrow> error + string" where
  "index_str (IStr s) = Inr s"
| "index_str (IUnicode cs) =
     (if ascii_points cs then Inr (map char_of cs) else Inl UnicodeEncodeError)"
| "index_str (IInt n) = Inr (string_of_int n)"

text \<open>\<open>element == index\<close> for an element of a list or a tuple.\<close>

fun equals_index :: "index \<Rightarrow> pyval \<Rightarrow> bool" where
  "equals_index (IStr s) (PStr t) = (s = t)"
| "equals_index (IStr s) (PUnicode cs) = (ascii s \<and> map of_char s = cs)"
| "equals_index (IUnicode cs) (PUnicode ds) = (cs = ds)"
| "equals_index (IUnicode cs) (PStr t) = (ascii t \<and> map of_char t = cs)"
| "equals_index (IInt n) (PInt m) = (n = m)"
| "equals_index i v = False"

text \<open>
  \<open>index in old\<close>. In a string the index is looked for as a substring, after the
  \<open>str\<close> of the two has been decoded with the ASCII codec when the other is a
  \<open>unicode\<close>.
\<close>

fun index_in :: "index \<Rightarrow> pyval \<Rightarrow> error + bool" where
  "index_in (IStr s) (PDict d) = Inr (s \<in> fst ` set d)"
| "index_in (IUnicode cs) (PDict d) = Inr (ascii_points cs \<and> map char_of cs \<in> fst ` set d)"
| "index_in (IInt n) (PDict d) = Inr False"
| "index_in i (PList l) = Inr (list_ex (equals_index i) l)"
| "index_in i (PTuple l) = Inr (list_ex (equals_index i) l)"
| "index_in (IStr s) (PStr t) = Inr (sublist s t)"
| "index_in (IUnicode cs) (PStr t) =
     (if ascii t then Inr (sublist cs (map of_char t)) else Inl UnicodeDecodeError)"
| "index_in (IStr s) (PUnicode ds) =
     (if ascii s then Inr (sublist (map of_char s) ds) else Inl UnicodeDecodeError)"
| "index_in (IUnicode cs) (PUnicode ds) = Inr (sublist cs ds)"
| "index_in i v = Inl TypeError"

section \<open>The multidict of raw data (webob's MultiDict)\<close>

type_synonym multidict = "(string \<times> pyval) list"

definition getall :: "multidict \<Rightarrow> string \<Rightarrow> pyval list" where
  "getall d k = map snd (filter (\<lambda>kv. fst kv = k) d)"

text \<open>\<open>d.get(k, default)\<close>: the last value under the key.\<close>

definition get :: "multidict \<Rightarrow> string \<Rightarrow> pyval \<Rightarrow> pyval" where
  "get d k dflt = (case getall d k of [] \<Rightarrow> dflt | vs \<Rightarrow> last vs)"

definition delitem :: "multidict \<Rightarrow> string \<Rightarrow> multidict" where
  "delitem d k = filter (\<lambda>kv. fst kv \<noteq> k) d"

text \<open>\<open>d[k] = v\<close> removes every value under the key and appends the new one.\<close>

definition setitem :: "multidict \<Rightarrow> string \<Rightarrow> pyval \<Rightarrow> multidict" where
  "setitem d k v = delitem d k @ [(k, v)]"

definition add :: "multidict \<Rightarrow> string \<Rightarrow> pyval \<Rightarrow> multidict" where
  "add d k v = d @ [(k, v)]"

section \<open>Fields (forms/fields.py)\<close>

text \<open>The form's state that the fields read and write.\<close>

record form =
  raw_data :: multidict
  errors :: errors

definition writable :: "field \<Rightarrow> bool" where
  "writable f = (CHR ''w'' \<in> set (permissions (field_attrs f)))"

text \<open>\<open>field(name=n)\<close>: a copy of the field under another name.\<close>

fun with_name :: "string \<Rightarrow> field \<Rightarrow> field" where
  "with_name n (Field a) = Field (a\<lparr>name := n\<rparr>)"
| "with_name n (FileField a) = FileField (a\<lparr>name := n\<rparr>)"
| "with_name n (FieldSet a fs) = FieldSet (a\<lparr>name := n\<rparr>) fs"
| "with_name n (FieldList a f) = FieldList (a\<lparr>name := n\<rparr>) f"

text \<open>
  \<open>FieldSet.__init__\<close>, as far as the partition of its \<open>fields\<close> argument goes.
\<close>

definition FieldSet_init :: "attrs \<Rightarrow> item list \<Rightarrow> field" where
  "FieldSet_init a lst = FieldSet a (get_fields' lst)"

text \<open>
  \<open>get_initial\<close>. In a \<open>FieldSet\<close> an element of \<open>self.fields\<close> that is no field has no
  \<open>name\<close>.
\<close>

fun get_initial :: "field \<Rightarrow> error + pyval"
and get_initial_fields :: "item list \<Rightarrow> (string \<times> pyval) list \<Rightarrow> error + (string \<times> pyval) list" where
  "get_initial (Field a) =
     Inr (case initial a of Some v \<Rightarrow> v
          | None \<Rightarrow> if multiple (conv a) then PList [] else PNone)"
| "get_initial (FileField a) =
     Inr (case initial a of Some v \<Rightarrow> v
          | None \<Rightarrow> if multiple (conv a) then PList [] else PNone)"
| "get_initial (FieldSet a fs) =
     (case get_initial_fields fs [] of
        Inl e \<Rightarrow> Inl e
      | Inr result \<Rightarrow> Inr (accept_silent (conv a) (PDict result)))"
| "get_initial (FieldList a f) = Inr (PList [])"
| "get_initial_fields [] result = Inr result"
| "get_initial_fields (BaseField f # fs) result =
     (case get_initial f of
        Inl e \<Rightarrow> Inl e
      | Inr v \<Rightarrow> get_initial_fields fs (AList.update (name (field_attrs f)) v result))"
| "get_initial_fields (i # fs) result = Inl AttributeError"

text \<open>
  \<open>AggregateField.python_data\<close>. \<open>parent_data\<close> is what \<open>self.parent.python_data\<close>
  evaluates to, a value or an exception. The whole of \<open>self.clean_value\<close> is inside
  the \<open>try\<close>: a \<open>LookupError\<close> is caught, whether the parent's \<open>python_data\<close> or the
  look-up under the name raises it, and \<open>get_initial\<close> gives the value.
\<close>

definition python_data :: "(error + pyval) \<Rightarrow> field \<Rightarrow> error + pyval" where
  "python_data parent_data f =
     (case (case parent_data of
              Inl e \<Rightarrow> Inl e
            | Inr d \<Rightarrow> py_getitem d (name (field_attrs f))) of
        Inr value \<Rightarrow> Inr (from_python (conv (field_attrs f)) value)
      | Inl KeyError \<Rightarrow>
         (case get_initial f of
            Inl e \<Rightarrow> Inl e
          | Inr value \<Rightarrow> Inr (from_python (conv (field_attrs f)) value))
      | Inl e \<Rightarrow> Inl e)"

text \<open>\<open>Field.raw_value\<close>; \<open>pfx\<close> is \<open>self.parent.prefix\<close>.\<close>

definition raw_value :: "string \<Rightarrow> attrs \<Rightarrow> form \<Rightarrow> pyval" where
  "raw_value pfx a frm =
     (if multiple (conv a) then PList (getall (raw_data frm) (pfx @ name a))
      else get (raw_data frm) (pfx @ name a) (PStr ''''))"

text \<open>\<open>Field._check_value_type\<close>.\<close>

definition check_value_type :: "string \<Rightarrow> attrs \<Rightarrow> pyval \<Rightarrow> form \<Rightarrow> error + bool \<times> form" where
  "check_value_type pfx a values frm =
     (case (if \<not> multiple (conv a) then Inr [values] else py_iter values) of
        Inl e \<Rightarrow> Inl e
      | Inr vs \<Rightarrow>
          if list_all is_basestring vs then Inr (True, frm)
          else Inr (False, frm\<lparr>errors := (errors frm)(pfx @ name a \<mapsto>
                                   ''Given value has incompatible type'')\<rparr>))"

text \<open>\<open>FileField._check_value_type\<close>.\<close>

fun not_file :: "pyval \<Rightarrow> bool" where
  "not_file (PFile n) = False"
| "not_file v = py_truth v"

definition FileField_check_value_type ::
  "string \<Rightarrow> attrs \<Rightarrow> pyval \<Rightarrow> form \<Rightarrow> error + bool \<times> form" where
  "FileField_check_value_type pfx a values frm =
     (case (if \<not> multiple (conv a) then Inr [values] else py_iter values) of
        Inl e \<Rightarrow> Inl e
      | Inr vs \<Rightarrow>
          if list_ex not_file vs
          then Inr (False, frm\<lparr>errors := (errors frm)(pfx @ name a \<mapsto>
                                   ''Given value is not file'')\<rparr>)
          else Inr (True, frm))"

text \<open>\<open>Field.accept\<close>, with the \<open>_null_value\<close> of the class.\<close>

definition Field_accept :: "string \<Rightarrow> attrs \<Rightarrow> form \<Rightarrow> error + pyval \<times> form" where
  "Field_accept pfx a frm =
     (let v = raw_value pfx a frm in
      case check_value_type pfx a v frm of
        Inl e \<Rightarrow> Inl e
      | Inr (ok, frm) \<Rightarrow>
         (let v = (if ok then v else if multiple (conv a) then PList [] else PStr '''');
              (r, es) = conv_accept (conv a) v (errors frm)
          in Inr (r, frm\<lparr>errors := es\<rparr>)))"

definition FileField_accept :: "string \<Rightarrow> attrs \<Rightarrow> form \<Rightarrow> error + pyval \<times> form" where
  "FileField_accept pfx a frm =
     (let v = raw_value pfx a frm in
      case FileField_check_value_type pfx a v frm of
        Inl e \<Rightarrow> Inl e
      | Inr (ok, frm) \<Rightarrow>
         (let v = (if ok then v else if multiple (conv a) then PList [] else PNone);
              (r, es) = conv_accept (conv a) v (errors frm)
          in Inr (r, frm\<lparr>errors := es\<rparr>)))"

text \<open>
  \<open>set_raw_value\<close>. The multidict written is the form's own \<open>raw_data\<close>, as in each
  call of the sources (\<open>FieldList.set_raw_value\<close> writes the indices into
  \<open>self.form.raw_data\<close>). \<open>pfx\<close> is \<open>self.parent.prefix\<close>.
  \<open>set_raw_value_fields\<close> is the loop of \<open>FieldSet.set_raw_value\<close>,
  \<open>set_raw_value_indices\<close> the first loop of \<open>FieldList.set_raw_value\<close> over the
  indices from \<open>index\<close> up to \<open>index + count - 1\<close>.
\<close>

function (sequential) set_raw_value :: "string \<Rightarrow> field \<Rightarrow> multidict \<Rightarrow> pyval \<Rightarrow> error + multidict"
and set_raw_value_fields ::
  "string \<Rightarrow> item list \<Rightarrow> multidict \<Rightarrow> pyval \<Rightarrow> error + multidict"
and set_raw_value_indices ::
  "string \<Rightarrow> field \<Rightarrow> nat \<Rightarrow> nat \<Rightarrow> multidict \<Rightarrow> pyval \<Rightarrow> error + multidict" where
  "set_raw_value pfx (Field a) rd v =
     (if multiple (conv a) then
        (case py_iter v of
           Inl e \<Rightarrow> Inl e
         | Inr vs \<Rightarrow> Inr (fold (\<lambda>v rd. add rd (pfx @ name a) v) vs
                           (delitem rd (pfx @ name a))))
      else Inr (setitem rd (pfx @ name a) v))"
| "set_raw_value pfx (FileField a) rd v = Inr rd"
| "set_raw_value pfx (FieldSet a fs) rd v =
     (case v of
        PDict d \<Rightarrow> set_raw_value_fields (pfx @ name a @ ''.'') fs rd v
      | _ \<Rightarrow> Inl AssertionError)"
| "set_raw_value pfx (FieldList a f) rd v =
     (case py_len v of
        Inl e \<Rightarrow> Inl e
      | Inr n \<Rightarrow>
         (case set_raw_value_indices (pfx @ name a @ ''.'') f 1 n rd v of
            Inl e \<Rightarrow> Inl e
          | Inr rd \<Rightarrow>
              Inr (fold (\<lambda>i rd. add rd (pfx @ name a @ ''-indeces'') (PStr (string_of_nat i)))
                        [1 ..< Suc n] (delitem rd (pfx @ name a @ ''-indeces'')))))"
| "set_raw_value_fields pfx [] rd v = Inr rd"
| "set_raw_value_fields pfx (BaseField f # fs) rd v =
     (case py_getitem v (name (field_attrs f)) of
        Inl e \<Rightarrow> Inl e
      | Inr subvalue \<Rightarrow>
         (case set_raw_value pfx f rd (from_python (conv (field_attrs f)) subvalue) of
            Inl e \<Rightarrow> Inl e
          | Inr rd \<Rightarrow> set_raw_value_fields pfx fs rd v))"
| "set_raw_value_fields pfx (i # fs) rd v = Inl AttributeError"
| "set_raw_value_indices pfx f index 0 rd v = Inr rd"
| "set_raw_value_indices pfx f index (Suc count) rd v =
     (case py_getitem v (string_of_nat index) of
        Inl e \<Rightarrow> Inl e
      | Inr subvalue \<Rightarrow>
         (case set_raw_value pfx (with_name (string_of_nat index) f) rd
                 (from_python (conv (field_attrs f)) subvalue) of
            Inl e \<Rightarrow> Inl e
          | Inr rd \<Rightarrow> set_raw_value_indices pfx f (Suc index) count rd v))"
  by pat_completeness auto

termination
proof -
  have sz: "size (with_name n f) = size f" for n f
    by (cases f) simp_all
  show ?thesis
    by (relation "inv_image (less_than <*lex*> less_than)
          (\<lambda>x. case x of
             Inl (p, f, rd, v) \<Rightarrow> (size f, 0)
           | Inr (Inl (p, fs, rd, v)) \<Rightarrow> (size_list size fs, 0)
           | Inr (Inr (p, f, i, c, rd, v)) \<Rightarrow> (size f, Suc c))") (auto simp: sz)
qed

text \<open>
  \<open>accept\<close>. \<open>int_str\<close> tells which strings \<open>int\<close> accepts, \<open>pfx\<close> is
  \<open>self.parent.prefix\<close> and \<open>parent_data\<close> what \<open>self.parent.python_data\<close> evaluates to.
  \<open>accept_fields\<close> is the loop of \<open>FieldSet.accept\<close> and \<open>accept_indices\<close> the loop of
  \<open>FieldList.accept\<close>; both get the prefix and the \<open>python_data\<close> of the aggregate
  itself, and the \<open>result\<close> built so far. An element of \<open>self.fields\<close> that is no
  field has no \<open>writable\<close> attribute.
\<close>

function (sequential) accept ::
  "(pytext \<Rightarrow> bool) \<Rightarrow> string \<Rightarrow> (error + pyval) \<Rightarrow> field \<Rightarrow> form \<Rightarrow> error + pyval \<times> form"
and accept_fields ::
  "(pytext \<Rightarrow> bool) \<Rightarrow> string \<Rightarrow> (error + pyval) \<Rightarrow> item list \<Rightarrow> (string \<times> pyval) list \<Rightarrow> form
   \<Rightarrow> error + (string \<times> pyval) list \<times> form"
and accept_indices ::
  "(pytext \<Rightarrow> bool) \<Rightarrow> string \<Rightarrow> pyval \<Rightarrow> field \<Rightarrow> pyval list \<Rightarrow> (string \<times> pyval) list \<Rightarrow> form
   \<Rightarrow> error + (string \<times> pyval) list \<times> form" where
  "accept int_str pfx parent_data (Field a) frm = Field_accept pfx a frm"
| "accept int_str pfx parent_data (FileField a) frm = FileField_accept pfx a frm"
| "accept int_str pfx parent_data (FieldSet a fs) frm =
     (case python_data parent_data (FieldSet a fs) of
        Inl e \<Rightarrow> Inl e
      | Inr d \<Rightarrow>
         (case py_dict d of
            Inl e \<Rightarrow> Inl e
          | Inr result \<Rightarrow>
             (case accept_fields int_str (pfx @ name a @ ''.'') (Inr d) fs result frm of
                Inl e \<Rightarrow> Inl e
              | Inr (result, frm) \<Rightarrow>
                 (let (r, es) = conv_accept (conv a) (PDict result) (errors frm)
                  in Inr (r, frm\<lparr>errors := es\<rparr>)))))"
| "accept int_str pfx parent_data (FieldList a f) frm =
     (case python_data parent_data (FieldList a f) of
        Inl e \<Rightarrow> Inl e
      | Inr old \<Rightarrow>
         (case accept_indices int_str (pfx @ name a @ ''.'') old f
                 (getall (raw_data frm) (pfx @ name a @ ''-indeces'')) [] frm of
            Inl e \<Rightarrow> Inl e
          | Inr (result, frm) \<Rightarrow>
             (let (r, es) = conv_accept (conv a) (PDict result) (errors frm)
              in Inr (r, frm\<lparr>errors := es\<rparr>))))"
| "accept_fields int_str pfx self_data [] result frm = Inr (result, frm)"
| "accept_fields int_str pfx self_data (BaseField f # fs) result frm =
     (if writable f then
        (case accept int_str pfx self_data f frm of
           Inl e \<Rightarrow> Inl e
         | Inr (v, frm) \<Rightarrow>
             accept_fields int_str pfx self_data fs
               (AList.update (name (field_attrs f)) v result) frm)
      else
        (case map_of result (name (field_attrs f)) of
           None \<Rightarrow> Inl KeyError
         | Some v \<Rightarrow>
            (case set_raw_value pfx f (raw_data frm) (from_python (conv (field_attrs f)) v) of
               Inl e \<Rightarrow> Inl e
             | Inr rd \<Rightarrow>
                 accept_fields int_str pfx self_data fs result (frm\<lparr>raw_data := rd\<rparr>))))"
| "accept_fields int_str pfx self_data (i # fs) result frm = Inl AttributeError"
| "accept_indices int_str pfx old f [] result frm = Inr (result, frm)"
| "accept_indices int_str pfx old f (index # indices) result frm =
     (case check_int int_str index of
        Inl ValueError \<Rightarrow> accept_indices int_str pfx old f indices result frm
      | Inl e \<Rightarrow> Inl e
      | Inr i \<Rightarrow>
         (case index_str i of
            Inl e \<Rightarrow> Inl e
          | Inr n \<Rightarrow>
             (if \<not> writable f then
                (case index_in i old of
                   Inl e \<Rightarrow> Inl e
                 | Inr False \<Rightarrow> accept_indices int_str pfx old f indices result frm
                 | Inr True \<Rightarrow>
                    (case py_getitem old n of
                       Inl e \<Rightarrow> Inl e
                     | Inr v \<Rightarrow>
                         accept_indices int_str pfx old f indices
                           (AList.update n v result) frm))
              else
                (case accept int_str pfx (Inr old) (with_name n f) frm of
                   Inl e \<Rightarrow> Inl e
                 | Inr (v, frm) \<Rightarrow>
                     accept_indices int_str pfx old f indices
                       (AList.update n v result) frm))))"
  by pat_completeness auto

termination
proof -
  have sz: "size (with_name n f) = size f" for n f
    by (cases f) simp_all
  show ?thesis
    by (relation "inv_image (less_than <*lex*> less_than)
          (\<lambda>x. case x of
             Inl (ip, p, pd, f, frm) \<Rightarrow> (size f, 0)
           | Inr (Inl (ip, p, sd, fs, r, frm)) \<Rightarrow> (size_list size fs, 0)
           | Inr (Inr (ip, p, old, f, is, r, frm)) \<Rightarrow> (size f, Suc (length is)))")
       (auto simp: sz)
qed

text \<open>
  \<open>name.split('.', 1)\<close>: the part before the first dot and, if there is a dot, the
  part after it.
\<close>

fun split1 :: "string \<Rightarrow> string \<times> string option" where
  "split1 [] = ([], None)"
| "split1 (c # cs) =
     (if c = CHR ''.'' then ([], Some cs)
      else (case split1 cs of (n, r) \<Rightarrow> (c # n, r)))"

text \<open>
  \<open>_digit_re.match\<close> for the pattern \<open>\<open>\d+$\<close>\<close>: decimal digits up to the end of the
  string or up to a newline that ends it.
\<close>

definition is_digit :: "char \<Rightarrow> bool" where
  "is_digit c = (48 \<le> (of_char c :: nat) \<and> (of_char c :: nat) \<le> 57)"

definition digit_re_match :: "string \<Rightarrow> bool" where
  "digit_re_match s =
     (let ds = takeWhile is_digit s; r = dropWhile is_digit s
      in ds \<noteq> [] \<and> (r = [] \<or> r = [CHR 0x0A]))"

text \<open>
  \<open>get_field\<close> of \<open>FieldSet\<close> and \<open>FieldList\<close>; the other fields have no such method.
  \<open>get_field_loop\<close> is the loop of \<open>FieldSet.get_field\<close> with the two parts of the
  name. The result \<open>None\<close> is Python's \<open>None\<close>.
\<close>

function (sequential) get_field :: "field \<Rightarrow> string \<Rightarrow> error + field option"
and get_field_loop :: "item list \<Rightarrow> string \<Rightarrow> string option \<Rightarrow> error + field option" where
  "get_field (FieldSet a fs) nm = (case split1 nm of (n, r) \<Rightarrow> get_field_loop fs n r)"
| "get_field (FieldList a f) nm =
     (case split1 nm of (n, r) \<Rightarrow>
        if \<not> digit_re_match n then Inr None
        else (case r of
                Some rest \<Rightarrow> get_field (with_name n f) rest
              | None \<Rightarrow> Inr (Some (with_name n f))))"
| "get_field f nm = Inl AttributeError"
| "get_field_loop [] n r = Inr None"
| "get_field_loop (BaseField f # fs) n r =
     (if name (field_attrs f) = n then
        (case r of Some rest \<Rightarrow> get_field f rest | None \<Rightarrow> Inr (Some f))
      else get_field_loop fs n r)"
| "get_field_loop (i # fs) n r = Inl AttributeError"
  by pat_completeness auto

termination
proof -
  have sz: "size (with_name n f) = size f" for n f
    by (cases f) simp_all
  show ?thesis
    by (relation "measure
          (\<lambda>x. case x of Inl (f, nm) \<Rightarrow> size f | Inr (fs, n, r) \<Rightarrow> size_list size fs)")
       (auto simp: sz)
qed

section \<open>Example values\<close>

text \<open>
  The behaviour of the base \<open>Converter\<close>: values pass unchanged in both directions
  and nothing is recorded.
\<close>

definition plain_conv :: converter where
  "plain_conv =
     \<lparr>multiple = False, from_python = (\<lambda>value. value),
      conv_accept = (\<lambda>value errors. (value, errors)), accept_silent = (\<lambda>value. value)\<rparr>"

definition plain_attrs :: "string \<Rightarrow> string \<Rightarrow> attrs" where
  "plain_attrs n perms =
     \<lparr>name = n, conv = plain_conv, permissions = perms,
      widget = Some (Widget ''widgets/textinput''), initial = None\<rparr>"

definition example_hashlib :: hashlib where
  "example_hashlib =
     \<lparr>algorithms = [''md5'', ''sha1''],
      hexdigest = (\<lambda>algorithm data. replicate (length algorithm + length data) CHR ''0'')\<rparr>"


text \<open>An \<open>identify_user\<close> that returns a row of a table of users, a tuple.\<close>

definition row_auth :: cookie_auth where
  "row_auth = \<lparr>cookie_name = ''auth'',
                identify_user = (\<lambda>env identity. Inr (PTuple [PStr identity, PStr ''admin'']))\<rparr>"

definition example_env :: env where
  "example_env = \<lparr>cookies = [''auth'' \<mapsto> map of_char ''c0ffee''], user = None\<rparr>"

definition return_user :: "env \<Rightarrow> unit \<Rightarrow> (error + pyval option) \<times> env" where
  "return_user env data = (Inr (user env), env)"

definition stop_app :: "unit \<Rightarrow> response \<Rightarrow> unit outcome \<times> response" where
  "stop_app env response = (STOP, response\<lparr>body := ''x''\<rparr>)"

definition redirect_app :: "unit \<Rightarrow> response \<Rightarrow> unit outcome \<times> response" where
  "redirect_app env response = (RaisedHttp (HttpException 303 (Unicode [47, 233])), response)"

definition empty_response :: "unit \<Rightarrow> response" where
  "empty_response env = \<lparr>status = 200, headers = [], body = []\<rparr>"



definition list_conv :: converter where
  "list_conv = plain_conv\<lparr>multiple := True\<rparr>"

text \<open>\<open>self.fields\<close> of an aggregate and the names of the fields in a list.\<close>

fun fields_of :: "field \<Rightarrow> item list" where
  "fields_of (FieldSet a fs) = fs"
| "fields_of f = []"

fun names :: "item list \<Rightarrow> string list" where
  "names [] = []"
| "names (BaseField f # fs) = name (field_attrs f) # names fs"
| "names (i # fs) = names fs"

section \<open>The round trip of a value through the raw data\<close>


text \<open>
  The input names of a field named \<open>n\<close> under the prefix \<open>pfx\<close> and of the fields below
  it: the name itself, or the name followed by a dot or a dash and more.
\<close>

definition touches :: "string \<Rightarrow> string \<Rightarrow> string \<Rightarrow> bool" where
  "touches pfx n k =
     (\<exists>rest. k = pfx @ n @ rest \<and> (rest = [] \<or> hd rest = CHR ''.'' \<or> hd rest = CHR ''-''))"




section \<open>The partition helpers agree\<close>

lemma fields_partition_spec: "get_fields' lst = spec_fields lst"
  by (induction lst rule: get_fields'.induct) (simp_all add: spec_fields_def)

lemma get_fields_known: "Other \<notin> set lst \<Longrightarrow> get_fields lst = Inr (get_fields' lst)"
  by (induction lst rule: get_fields.induct) simp_all

lemma get_widgets_same: "get_widgets lst = get_widgets' lst"
  by (induction lst rule: get_widgets.induct) (simp_all split: option.splits)

text \<open>
  Claim C9. On a list whose elements are each a \<open>BaseField\<close>, a \<open>FieldBlock\<close> or a
  \<open>NoFieldWidget\<close> instance, \<open>HasFields.get_fields\<close> returns (without raising) the list
  that \<open>_get_fields\<close> returns, which is the \<open>BaseField\<close> elements in order with each
  \<open>FieldBlock\<close> replaced by its fields; and \<open>HasFields.get_widgets\<close> and
  \<open>_get_widgets\<close> return equal lists.
\<close>

theorem partition_helpers_agree:
  assumes "Other \<notin> set lst"
  shows "get_fields lst = Inr (get_fields' lst)
       \<and> get_fields' lst = spec_fields lst
       \<and> get_widgets lst = get_widgets' lst"
  using assms by (simp add: get_fields_known fields_partition_spec get_widgets_same)

theorem partition_helpers_agree_witness:
  "get_fields [FieldBlock ''b'' [NoFieldWidget (Widget ''w''), BaseField (Field (plain_attrs ''f1'' ''rw''))],
               BaseField (Field (plain_attrs ''f4'' ''rw'')), NoFieldWidget (Widget ''w'')]
     = Inr [NoFieldWidget (Widget ''w''), BaseField (Field (plain_attrs ''f1'' ''rw'')),
            BaseField (Field (plain_attrs ''f4'' ''rw''))]
   \<and> get_widgets [FieldBlock ''b'' [NoFieldWidget (Widget ''w''), BaseField (Field (plain_attrs ''f1'' ''rw''))],
               BaseField (Field (plain_attrs ''f4'' ''rw'')), NoFieldWidget (Widget ''w'')]
     = get_widgets' [FieldBlock ''b'' [NoFieldWidget (Widget ''w''), BaseField (Field (plain_attrs ''f1'' ''rw''))],
               BaseField (Field (plain_attrs ''f4'' ''rw'')), NoFieldWidget (Widget ''w'')]"
proof -
  have h: "Other \<notin> set [FieldBlock ''b'' [NoFieldWidget (Widget ''w''), BaseField (Field (plain_attrs ''f1'' ''rw''))],
               BaseField (Field (plain_attrs ''f4'' ''rw'')), NoFieldWidget (Widget ''w'')]"
    by simp
  from partition_helpers_agree [OF h] show ?thesis by simp
qed

section \<open>Strings\<close>

lemma split_no_sep: "c \<notin> set s \<Longrightarrow> split c s = [s]"
  by (induction s) auto

lemma split_append: "c \<notin> set a \<Longrightarrow> split c (a @ c # rest) = a # split c rest"
  by (induction a) (auto split: list.splits)

lemma split_three:
  "c \<notin> set a \<Longrightarrow> c \<notin> set b \<Longrightarrow> c \<notin> set d
   \<Longrightarrow> split c (a @ [c] @ b @ [c] @ d) = [a, b, d]"
  by (simp add: split_append split_no_sep)

lemma utf8_char_ascii: "c < 0x80 \<Longrightarrow> utf8_char c = [char_of c]"
  by (simp add: utf8_char_def)

lemma utf8_of_ascii: "ascii s \<Longrightarrow> utf8 (map of_char s) = s"
  by (induction s) (simp_all add: utf8_def ascii_def utf8_char_def)

lemma last_utf8_char: "0x80 \<le> c \<Longrightarrow> (of_char (last (utf8_char c)) :: nat) = 0x80 + c mod 0x40"
  by (simp add: utf8_char_def)

lemma utf8_char_not_ascii: "0x80 \<le> c \<Longrightarrow> \<not> ascii (utf8_char c)"
proof -
  assume h: "0x80 \<le> c"
  have "last (utf8_char c) \<in> set (utf8_char c)" by (simp add: utf8_char_def)
  moreover have "\<not> (of_char (last (utf8_char c)) :: nat) < 0x80"
    using last_utf8_char [OF h] by simp
  ultimately show ?thesis by (auto simp: ascii_def list_all_iff)
qed

lemma ascii_append: "ascii (a @ b) \<longleftrightarrow> ascii a \<and> ascii b"
  by (simp add: ascii_def)

lemma utf8_not_ascii: "\<exists>c\<in>set cs. 0x80 \<le> c \<Longrightarrow> \<not> ascii (utf8 cs)"
  by (induction cs) (auto simp: utf8_def ascii_append utf8_char_not_ascii)

lemma dollar_utf8_char:
  assumes "c < 0x110000" "c \<noteq> 36"
  shows "CHR ''$'' \<notin> set (utf8_char c)"
proof -
  have d: "(of_char (CHR ''$'') :: nat) = 36" by simp
  have "\<forall>x \<in> set (utf8_char c). (of_char x :: nat) \<noteq> 36"
    using assms by (auto simp: utf8_char_def)
  then show ?thesis using d by blast
qed

lemma dollar_utf8:
  "\<forall>c\<in>set cs. c < 0x110000 \<Longrightarrow> 36 \<notin> set cs \<Longrightarrow> CHR ''$'' \<notin> set (utf8 cs)"
  by (induction cs) (auto simp: utf8_def dollar_utf8_char)

section \<open>The WSGI handler and the authentication\<close>

text \<open>
  Claim C6. When the wrapped application returns \<open>STOP\<close>, \<open>WSGIHandler\<close> answers with
  the status 404 NOT_FOUND (and the headers and body the application left). When the
  application raises an \<open>HttpException\<close> whose status is MOVED_PERMANENTLY or SEE_OTHER,
  the answer has that status and, after the headers the application left, a \<open>Location\<close>
  header with the exception's URL, encoded in UTF-8 when it is a \<open>unicode\<close>.
\<close>

theorem wsgi_outcomes:
  "(app env (new_response env) = (STOP, r) \<longrightarrow>
      WSGIHandler_call app new_response env = Inr ((NOT_FOUND, headers r), [body r]))
   \<and> (app env (new_response env) = (RaisedHttp (HttpException st url), r)
        \<and> st \<in> {MOVED_PERMANENTLY, SEE_OTHER} \<longrightarrow>
      WSGIHandler_call app new_response env =
        Inr ((st, headers r @ [(''Location'', (case url of Unicode cs \<Rightarrow> utf8 cs | Str s \<Rightarrow> s))]),
             [body r]))"
  by (auto simp: WSGIHandler_call_def Let_def)

theorem wsgi_outcomes_witness:
  "WSGIHandler_call stop_app empty_response () = Inr ((404, []), [''x''])
   \<and> WSGIHandler_call redirect_app empty_response ()
       = Inr ((303, [(''Location'', [CHR ''/'', CHR 0xC3, CHR 0xA9])]), [''''])"
proof -
  have a: "stop_app () (empty_response ()) = (STOP, \<lparr>status = 200, headers = [], body = ''x''\<rparr>)"
    by (simp add: stop_app_def empty_response_def)
  have b: "redirect_app () (empty_response ())
           = (RaisedHttp (HttpException 303 (Unicode [47, 233])), \<lparr>status = 200, headers = [], body = []\<rparr>)
         \<and> (303::int) \<in> {MOVED_PERMANENTLY, SEE_OTHER}"
    by (simp add: redirect_app_def empty_response_def SEE_OTHER_def)
  have u: "utf8 [47, 233] = [CHR ''/'', CHR 0xC3, CHR 0xA9]"
    by code_simp
  from wsgi_outcomes [of stop_app "()" empty_response "\<lparr>status = 200, headers = [], body = ''x''\<rparr>"] a
  have 1: "WSGIHandler_call stop_app empty_response () = Inr ((404, []), [''x''])"
    by (simp add: NOT_FOUND_def)
  from wsgi_outcomes [of redirect_app "()" empty_response
      "\<lparr>status = 200, headers = [], body = []\<rparr>" 303 "Unicode [47, 233]"] b u
  have 2: "WSGIHandler_call redirect_app empty_response ()
       = Inr ((303, [(''Location'', [CHR ''/'', CHR 0xC3, CHR 0xA9])]), [''''])"
    by (simp add: SEE_OTHER_def MOVED_PERMANENTLY_def)
  from 1 2 show ?thesis by simp
qed

lemma handle_sets_user:
  "(cookies env (cookie_name self) = Some key
      \<and> storage_get storage (cookie_name self @ '':'' @ utf8 key) = Some identity
      \<and> identify_user self env identity = Inr u \<and> \<not> format_raises u \<longrightarrow>
    handle self storage env data next_handler
      = del_user (next_handler (env\<lparr>user := Some u\<rparr>) data))
   \<and> (cookies env (cookie_name self) = None
       \<or> (cookies env (cookie_name self) = Some key
           \<and> storage_get storage (cookie_name self @ '':'' @ utf8 key) = None) \<longrightarrow>
    handle self storage env data next_handler
      = del_user (next_handler (env\<lparr>user := Some PNone\<rparr>) data))"
  by (auto simp: handle_def)






text \<open>
  Claim C7 fails when \<open>identify_user\<close> returns a tuple, a row of a table of users for
  instance. The request carries the auth cookie and the storage holds an identity under
  its key, but the message for the log is formatted before \<open>env.user\<close> is set: the
  formatting raises \<open>TypeError\<close>, the next handler does not run and \<open>env.user\<close> is never
  set. (For a user that is no tuple, and a tuple of one element, \<open>handle\<close> does what the
  claim says: lemma \<open>handle_sets_user\<close>.)
\<close>

theorem handle_raises_on_tuple_user:
  "cookies example_env (cookie_name row_auth) = Some (map of_char ''c0ffee'')
   \<and> storage_get [''auth:c0ffee'' \<mapsto> ''7'']
        (cookie_name row_auth @ '':'' @ utf8 (map of_char ''c0ffee'')) = Some ''7''
   \<and> identify_user row_auth example_env ''7'' = Inr (PTuple [PStr ''7'', PStr ''admin''])
   \<and> handle row_auth [''auth:c0ffee'' \<mapsto> ''7''] example_env () return_user
       = (Inl TypeError, example_env)
   \<and> user example_env = None"
proof -
  have k: "utf8 [99, 48, 102, 102, 101, 101] = ''c0ffee''"
    by code_simp
  show ?thesis
    by (simp add: handle_def row_auth_def example_env_def storage_get_def k)
qed




section \<open>Passwords\<close>

lemma encode_utf8_ascii: "encode_utf8 t = Inr s \<Longrightarrow> ascii s \<Longrightarrow> encode_utf8 (Str s) = Inr s"
  by simp

lemma check_password_ascii_salt:
  assumes alg: "algorithm \<in> set (algorithms h)" "CHR ''$'' \<notin> set algorithm"
    and hex: "\<And>d. CHR ''$'' \<notin> set (hexdigest h algorithm d)"
    and raw: "encode_utf8 raw_password = Inr r"
    and salt: "encode_utf8 salt = Inr s" "ascii s" "CHR ''$'' \<notin> set s"
  shows "\<exists>enc. encrypt_password h rs raw_password algorithm (Some salt) = Inr enc
              \<and> check_password h rs raw_password enc = Inr True"
proof -
  let ?enc = "algorithm @ ''$'' @ s @ ''$'' @ hexdigest h algorithm (s @ r)"
  have e: "encrypt_password h rs raw_password algorithm (Some salt) = Inr ?enc"
    using alg raw salt by (simp add: encrypt_password_def)
  have sp: "split (CHR ''$'') ?enc = [algorithm, s, hexdigest h algorithm (s @ r)]"
    using split_three [OF alg(2) salt(3) hex, of "s @ r"] by simp
  have e2: "encrypt_password h rs raw_password algorithm (Some (Str s)) = Inr ?enc"
    using alg raw salt by (simp add: encrypt_password_def)
  have "check_password h rs raw_password ?enc = Inr True"
    unfolding check_password_def sp using e2 by simp
  with e show ?thesis by blast
qed

lemma check_password_unicode_salt:
  assumes alg: "algorithm \<in> set (algorithms h)" "CHR ''$'' \<notin> set algorithm"
    and hex: "\<And>d. CHR ''$'' \<notin> set (hexdigest h algorithm d)"
    and raw: "encode_utf8 raw_password = Inr r"
    and salt: "\<forall>c\<in>set cs. c < 0x110000" "36 \<notin> set cs" "\<exists>c\<in>set cs. 0x80 \<le> c"
  shows "\<exists>enc. encrypt_password h rs raw_password algorithm (Some (Unicode cs)) = Inr enc
              \<and> check_password h rs raw_password enc = Inl UnicodeDecodeError"
proof -
  let ?s = "utf8 cs"
  let ?enc = "algorithm @ ''$'' @ ?s @ ''$'' @ hexdigest h algorithm (?s @ r)"
  have e: "encrypt_password h rs raw_password algorithm (Some (Unicode cs)) = Inr ?enc"
    using alg raw by (simp add: encrypt_password_def)
  have d: "CHR ''$'' \<notin> set ?s" using salt(1,2) by (rule dollar_utf8)
  have sp: "split (CHR ''$'') ?enc = [algorithm, ?s, hexdigest h algorithm (?s @ r)]"
    using split_three [OF alg(2) d hex, of "?s @ r"] by simp
  have na: "\<not> ascii ?s" using salt(3) by (rule utf8_not_ascii)
  have e2: "encrypt_password h rs raw_password algorithm (Some (Str ?s)) = Inl UnicodeDecodeError"
    using raw na by (simp add: encrypt_password_def)
  have "check_password h rs raw_password ?enc = Inl UnicodeDecodeError"
    unfolding check_password_def sp using e2 by simp
  with e show ?thesis by blast
qed

text \<open>
  Claim C10 fails on a salt outside ASCII. With the raw password \<open>u'p'\<close>, the algorithm
  \<open>sha1\<close> and the unicode salt of the one code point 233, \<open>encrypt_password\<close> returns
  a string whose salt part is the two bytes of the encoded salt; \<open>check_password\<close> on that string encodes these
  bytes once more and raises \<open>UnicodeDecodeError\<close> instead of returning \<open>True\<close>.
\<close>

theorem check_password_raises_on_unicode_salt:
  "encrypt_password example_hashlib ''00000'' (Unicode [112]) ''sha1'' (Some (Unicode [233]))
     = Inr ([CHR ''s'', CHR ''h'', CHR ''a'', CHR ''1'', CHR ''$'', CHR 0xC3, CHR 0xA9, CHR ''$'']
            @ ''0000000'')
   \<and> check_password example_hashlib ''00000'' (Unicode [112])
        ([CHR ''s'', CHR ''h'', CHR ''a'', CHR ''1'', CHR ''$'', CHR 0xC3, CHR 0xA9, CHR ''$'']
            @ ''0000000'')
     = Inl UnicodeDecodeError"
proof -
  have u: "utf8 [233] = [CHR 0xC3, CHR 0xA9]" by code_simp
  have p: "utf8 [112] = ''p''" by code_simp
  have e: "encrypt_password example_hashlib ''00000'' (Unicode [112]) ''sha1'' (Some (Unicode [233]))
     = Inr ([CHR ''s'', CHR ''h'', CHR ''a'', CHR ''1'', CHR ''$'', CHR 0xC3, CHR 0xA9, CHR ''$'']
            @ ''0000000'')"
    by (simp add: encrypt_password_def example_hashlib_def u p)
  have n: "\<not> ascii [CHR 0xC3, CHR 0xA9]" by (simp add: ascii_def)
  have c: "check_password example_hashlib ''00000'' (Unicode [112])
        ([CHR ''s'', CHR ''h'', CHR ''a'', CHR ''1'', CHR ''$'', CHR 0xC3, CHR 0xA9, CHR ''$'']
            @ ''0000000'')
     = Inl UnicodeDecodeError"
    by (simp add: check_password_def encrypt_password_def example_hashlib_def p n)
  from e c show ?thesis by simp
qed

section \<open>Accepting raw values\<close>

lemma Field_accept_single:
  assumes "\<not> multiple (conv a)" "\<not> is_basestring (get (raw_data frm) (pfx @ name a) (PStr ''''))"
  shows "Field_accept pfx a frm =
    Inr (fst (conv_accept (conv a) (PStr '''')
               ((errors frm)(pfx @ name a \<mapsto> ''Given value has incompatible type''))),
         frm\<lparr>errors := snd (conv_accept (conv a) (PStr '''')
               ((errors frm)(pfx @ name a \<mapsto> ''Given value has incompatible type'')))\<rparr>)"
  using assms
  by (simp add: Field_accept_def raw_value_def check_value_type_def Let_def split_beta)

lemma Field_accept_multiple:
  assumes "multiple (conv a)" "\<exists>v\<in>set (getall (raw_data frm) (pfx @ name a)). \<not> is_basestring v"
  shows "Field_accept pfx a frm =
    Inr (fst (conv_accept (conv a) (PList [])
               ((errors frm)(pfx @ name a \<mapsto> ''Given value has incompatible type''))),
         frm\<lparr>errors := snd (conv_accept (conv a) (PList [])
               ((errors frm)(pfx @ name a \<mapsto> ''Given value has incompatible type'')))\<rparr>)"
  using assms
  by (auto simp add: Field_accept_def raw_value_def check_value_type_def Let_def split_beta
      list_all_iff)

text \<open>
  Claim C4. When the raw value of a \<open>Field\<close> is no string (or, for a multiple field,
  some value under its name is no string), \<open>Field.accept\<close> does not raise: it stores
  the message \<open>Given value has incompatible type\<close> under the field's input name in
  \<open>form.errors\<close> and gives the null value (\<open>[]\<close> if multiple, else the empty string)
  to the converter, whose result it returns.
\<close>

theorem incompatible_value_recorded:
  "(\<not> multiple (conv a)
      \<and> \<not> is_basestring (get (raw_data frm) (pfx @ name a) (PStr '''')) \<longrightarrow>
    accept int_str pfx parent_data (Field a) frm =
    Inr (fst (conv_accept (conv a) (PStr '''')
               ((errors frm)(pfx @ name a \<mapsto> ''Given value has incompatible type''))),
         frm\<lparr>errors := snd (conv_accept (conv a) (PStr '''')
               ((errors frm)(pfx @ name a \<mapsto> ''Given value has incompatible type'')))\<rparr>))
   \<and> (multiple (conv a)
      \<and> (\<exists>v\<in>set (getall (raw_data frm) (pfx @ name a)). \<not> is_basestring v) \<longrightarrow>
    accept int_str pfx parent_data (Field a) frm =
    Inr (fst (conv_accept (conv a) (PList [])
               ((errors frm)(pfx @ name a \<mapsto> ''Given value has incompatible type''))),
         frm\<lparr>errors := snd (conv_accept (conv a) (PList [])
               ((errors frm)(pfx @ name a \<mapsto> ''Given value has incompatible type'')))\<rparr>))"
  using Field_accept_single [of a frm pfx] Field_accept_multiple [of a frm pfx] by simp

theorem incompatible_value_recorded_witness:
  "accept (\<lambda>s. True) '''' (Inr (PDict [])) (Field (plain_attrs ''f'' ''rw''))
      \<lparr>raw_data = [(''f'', PFile 1)], errors = Map.empty\<rparr>
    = Inr (PStr '''', \<lparr>raw_data = [(''f'', PFile 1)],
                         errors = [''f'' \<mapsto> ''Given value has incompatible type'']\<rparr>)
   \<and> accept (\<lambda>s. True) '''' (Inr (PDict [])) (Field ((plain_attrs ''f'' ''rw'')\<lparr>conv := list_conv\<rparr>))
      \<lparr>raw_data = [(''f'', PStr ''a''), (''f'', PFile 1)], errors = Map.empty\<rparr>
    = Inr (PList [], \<lparr>raw_data = [(''f'', PStr ''a''), (''f'', PFile 1)],
                         errors = [''f'' \<mapsto> ''Given value has incompatible type'']\<rparr>)"
proof -
  have 1: "\<not> multiple (conv (plain_attrs ''f'' ''rw''))
      \<and> \<not> is_basestring (get (raw_data \<lparr>raw_data = [(''f'', PFile 1)], errors = Map.empty\<rparr>)
            ('''' @ name (plain_attrs ''f'' ''rw'')) (PStr ''''))"
    by (simp add: plain_attrs_def plain_conv_def get_def getall_def)
  have 2: "multiple (conv ((plain_attrs ''f'' ''rw'')\<lparr>conv := list_conv\<rparr>))
      \<and> (\<exists>v\<in>set (getall (raw_data \<lparr>raw_data = [(''f'', PStr ''a''), (''f'', PFile 1)],
                                         errors = Map.empty\<rparr>)
               ('''' @ name ((plain_attrs ''f'' ''rw'')\<lparr>conv := list_conv\<rparr>))). \<not> is_basestring v)"
    by (simp add: plain_attrs_def plain_conv_def list_conv_def getall_def)
  from incompatible_value_recorded [of "plain_attrs ''f'' ''rw''"
      "\<lparr>raw_data = [(''f'', PFile 1)], errors = Map.empty\<rparr>" "''''" "\<lambda>s. True" "Inr (PDict [])"] 1
  have a: "accept (\<lambda>s. True) '''' (Inr (PDict [])) (Field (plain_attrs ''f'' ''rw''))
      \<lparr>raw_data = [(''f'', PFile 1)], errors = Map.empty\<rparr>
    = Inr (PStr '''', \<lparr>raw_data = [(''f'', PFile 1)],
                         errors = [''f'' \<mapsto> ''Given value has incompatible type'']\<rparr>)"
    by (simp add: plain_attrs_def plain_conv_def)
  from incompatible_value_recorded [of "(plain_attrs ''f'' ''rw'')\<lparr>conv := list_conv\<rparr>"
      "\<lparr>raw_data = [(''f'', PStr ''a''), (''f'', PFile 1)], errors = Map.empty\<rparr>" "''''"
      "\<lambda>s. True" "Inr (PDict [])"] 2
  have b: "accept (\<lambda>s. True) '''' (Inr (PDict [])) (Field ((plain_attrs ''f'' ''rw'')\<lparr>conv := list_conv\<rparr>))
      \<lparr>raw_data = [(''f'', PStr ''a''), (''f'', PFile 1)], errors = Map.empty\<rparr>
    = Inr (PList [], \<lparr>raw_data = [(''f'', PStr ''a''), (''f'', PFile 1)],
                         errors = [''f'' \<mapsto> ''Given value has incompatible type'']\<rparr>)"
    by (simp add: plain_attrs_def plain_conv_def list_conv_def)
  from a b show ?thesis by simp
qed

section \<open>Looking fields up by name\<close>

lemma split1_no_dot: "CHR ''.'' \<notin> set n \<Longrightarrow> split1 n = (n, None)"
  by (induction n) auto

lemma get_field_loop_find:
  "get_field_loop (map BaseField fl) n None = Inr (find (\<lambda>f. name (field_attrs f) = n) fl)"
  by (induction fl) auto

lemma find_distinct_name:
  "distinct (map g fl) \<Longrightarrow> f \<in> set fl \<Longrightarrow> find (\<lambda>x. g x = g f) fl = Some f"
  by (induction fl) (auto simp: rev_image_eqI)

text \<open>
  Claim C3, as amended. Nothing makes the names of the fields of a \<open>FieldSet\<close> distinct.
  For a name without a dot, \<open>get_field\<close> on a set whose \<open>fields\<close> are all fields returns
  the first field, in order, that bears the name, or \<open>None\<close> if no field bears it; when
  the names are pairwise distinct, every field of the set is returned for its own name.
\<close>

theorem get_field_first_of_name:
  assumes "CHR ''.'' \<notin> set n"
  shows "get_field (FieldSet a (map BaseField fl)) n
           = Inr (find (\<lambda>f. name (field_attrs f) = n) fl)
       \<and> (distinct (map (\<lambda>f. name (field_attrs f)) fl) \<longrightarrow>
            (\<forall>f\<in>set fl. name (field_attrs f) = n \<longrightarrow>
               get_field (FieldSet a (map BaseField fl)) n = Inr (Some f)))"
proof -
  have g: "get_field (FieldSet a (map BaseField fl)) n
           = Inr (find (\<lambda>f. name (field_attrs f) = n) fl)"
    using assms by (simp add: split1_no_dot get_field_loop_find)
  have "find (\<lambda>x. name (field_attrs x) = n) fl = Some f"
    if "distinct (map (\<lambda>f. name (field_attrs f)) fl)" "f \<in> set fl" "name (field_attrs f) = n" for f
    using find_distinct_name [of "\<lambda>f. name (field_attrs f)" fl f] that by auto
  with g show ?thesis by simp
qed

theorem get_field_first_of_name_witness:
  "get_field (FieldSet (plain_attrs ''s'' ''rw'')
       (map BaseField [Field (plain_attrs ''a'' ''rw''), Field (plain_attrs ''b'' ''r'')])) ''b''
     = Inr (Some (Field (plain_attrs ''b'' ''r'')))
   \<and> get_field (FieldSet (plain_attrs ''s'' ''rw'')
       (map BaseField [Field (plain_attrs ''a'' ''rw''), Field (plain_attrs ''b'' ''r'')])) ''c''
     = Inr None"
proof -
  have d: "CHR ''.'' \<notin> set ''b''" "CHR ''.'' \<notin> set ''c''" by simp_all
  have n: "distinct (map (\<lambda>f. name (field_attrs f))
             [Field (plain_attrs ''a'' ''rw''), Field (plain_attrs ''b'' ''r'')])"
    by (simp add: plain_attrs_def)
  have m: "Field (plain_attrs ''b'' ''r'')
             \<in> set [Field (plain_attrs ''a'' ''rw''), Field (plain_attrs ''b'' ''r'')]
           \<and> name (field_attrs (Field (plain_attrs ''b'' ''r''))) = ''b''"
    by (simp add: plain_attrs_def)
  from get_field_first_of_name [OF d(1), of "plain_attrs ''s'' ''rw''"
      "[Field (plain_attrs ''a'' ''rw''), Field (plain_attrs ''b'' ''r'')]"] n m
  have 1: "get_field (FieldSet (plain_attrs ''s'' ''rw'')
       (map BaseField [Field (plain_attrs ''a'' ''rw''), Field (plain_attrs ''b'' ''r'')])) ''b''
     = Inr (Some (Field (plain_attrs ''b'' ''r'')))"
    by blast
  from get_field_first_of_name [OF d(2), of "plain_attrs ''s'' ''rw''"
      "[Field (plain_attrs ''a'' ''rw''), Field (plain_attrs ''b'' ''r'')]"]
  have 2: "get_field (FieldSet (plain_attrs ''s'' ''rw'')
       (map BaseField [Field (plain_attrs ''a'' ''rw''), Field (plain_attrs ''b'' ''r'')])) ''c''
     = Inr None"
    by (simp add: plain_attrs_def)
  from 1 2 show ?thesis by simp
qed

text \<open>
  Claim C3 as stated fails: \<open>FieldSet.__init__\<close> and \<open>HasFields.get_fields\<close> keep two
  fields of the same name, so the names of the fields of a set need not be distinct.
\<close>

theorem duplicate_names_accepted:
  "FieldSet_init (plain_attrs ''s'' ''rw'')
      [BaseField (Field (plain_attrs ''a'' ''rw'')), BaseField (Field (plain_attrs ''a'' ''r''))]
     = FieldSet (plain_attrs ''s'' ''rw'')
      [BaseField (Field (plain_attrs ''a'' ''rw'')), BaseField (Field (plain_attrs ''a'' ''r''))]
   \<and> get_fields [BaseField (Field (plain_attrs ''a'' ''rw'')), BaseField (Field (plain_attrs ''a'' ''r''))]
     = Inr [BaseField (Field (plain_attrs ''a'' ''rw'')), BaseField (Field (plain_attrs ''a'' ''r''))]
   \<and> \<not> distinct (names (fields_of (FieldSet_init (plain_attrs ''s'' ''rw'')
      [BaseField (Field (plain_attrs ''a'' ''rw'')), BaseField (Field (plain_attrs ''a'' ''r''))])))"
  by (simp add: FieldSet_init_def plain_attrs_def)

section \<open>The indices of a list of fields\<close>

text \<open>
  The loop of \<open>FieldList.accept\<close> goes through the indices on which \<open>int\<close> does not raise
  \<open>ValueError\<close>, in their order, as if the others were not there.
\<close>

lemma accept_indices_skips:
  "accept_indices int_str pfx old f indices result frm
     = accept_indices int_str pfx old f
         (filter (\<lambda>i. check_int int_str i \<noteq> Inl ValueError) indices) result frm"
proof (induction indices arbitrary: result frm)
  case Nil
  show ?case by simp
next
  case (Cons i indices)
  show ?case
  proof (cases "check_int int_str i")
    case (Inl e)
    then show ?thesis using Cons by (cases e) simp_all
  next
    case (Inr n)
    then show ?thesis using Cons
      by (simp split: sum.splits bool.splits prod.splits)
  qed
qed

text \<open>
  An index that \<open>int\<close> accepts is not skipped, but \<open>str(index)\<close> raises when the index is
  a \<open>unicode\<close> of decimal digits that are not ASCII (here the Arabic-Indic digit one).
\<close>

lemma non_ascii_digit_index_raises:
  "accept (\<lambda>t. t = Unicode [1633]) '''' (Inr (PDict []))
      (FieldList (plain_attrs ''l'' ''rw'') (Field (plain_attrs '''' ''rw'')))
      \<lparr>raw_data = [(''l-indeces'', PUnicode [1633])], errors = Map.empty\<rparr>
    = Inl UnicodeEncodeError"
  by (simp add: python_data_def plain_attrs_def plain_conv_def getall_def ascii_points_def)

text \<open>
  Claim C5 fails on an index that is no string. When an uploaded file is submitted under
  the name of the indices, \<open>int(index)\<close> raises an exception other than \<open>ValueError\<close>,
  which \<open>FieldList.accept\<close> does not catch: the index is not skipped, the call raises.
\<close>

theorem file_index_raises:
  "accept (\<lambda>s. True) '''' (Inr (PDict []))
      (FieldList (plain_attrs ''l'' ''rw'') (Field (plain_attrs '''' ''rw'')))
      \<lparr>raw_data = [(''l-indeces'', PFile 1)], errors = Map.empty\<rparr>
    = Inl AttributeError"
  by (simp add: python_data_def plain_attrs_def plain_conv_def getall_def)


section \<open>Fields that are not writable\<close>








section \<open>The round trip through the raw data\<close>

lemma getall_add: "getall (add rd k v) k' = (if k = k' then getall rd k' @ [v] else getall rd k')"
  by (simp add: getall_def add_def)

lemma getall_delitem: "getall (delitem rd k) k' = (if k = k' then [] else getall rd k')"
  by (induction rd) (auto simp: getall_def delitem_def)

lemma getall_setitem: "getall (setitem rd k v) k' = (if k = k' then [v] else getall rd k')"
  by (induction rd) (auto simp: getall_def setitem_def delitem_def)

lemma getall_fold_add:
  "getall (fold (\<lambda>x rd. add rd k (g x)) xs rd) k'
     = (if k = k' then getall rd k' @ map g xs else getall rd k')"
  by (induction xs arbitrary: rd) (simp_all add: getall_add)


lemma touches_self: "touches pfx n (pfx @ n)"
  by (simp add: touches_def)

lemma touches_indices: "touches pfx n (pfx @ n @ ''-indeces'')"
  by (simp add: touches_def)

lemma touches_child: "touches (pfx @ n @ ''.'') m k \<Longrightarrow> touches pfx n k"
  by (auto simp: touches_def)












lemma name_with_name [simp]: "name (field_attrs (with_name n f)) = n"
  by (cases f) simp_all

lemma conv_with_name [simp]: "conv (field_attrs (with_name n f)) = conv (field_attrs f)"
  by (cases f) simp_all

lemma getall_fold_add_values:
  "getall (fold (\<lambda>v rd. add rd k v) vs rd) k'
     = (if k = k' then getall rd k' @ vs else getall rd k')"
  by (induction vs arbitrary: rd) (simp_all add: getall_add)

lemma set_raw_value_frame:
  "set_raw_value pfx f rd v = Inr rd1 \<Longrightarrow> \<not> touches pfx (name (field_attrs f)) k
     \<Longrightarrow> getall rd1 k = getall rd k"
  and set_raw_value_fields_frame:
  "set_raw_value_fields pfx fs rd v = Inr rd1
     \<Longrightarrow> \<forall>g. BaseField g \<in> set fs \<longrightarrow> \<not> touches pfx (name (field_attrs g)) k
     \<Longrightarrow> getall rd1 k = getall rd k"
  and set_raw_value_indices_frame:
  "set_raw_value_indices pfx f i c rd v = Inr rd1
     \<Longrightarrow> \<forall>j. i \<le> j \<and> j < i + c \<longrightarrow> \<not> touches pfx (string_of_nat j) k
     \<Longrightarrow> getall rd1 k = getall rd k"
proof (induction pfx f rd v and pfx fs rd v and pfx f i c rd v
       arbitrary: rd1 and rd1 and rd1
       rule: set_raw_value_set_raw_value_fields_set_raw_value_indices.induct)
  case (1 pfx a rd v)
  from "1.prems"(2) have "k \<noteq> pfx @ name a" using touches_self [of pfx "name a"] by auto
  with "1.prems"(1) show ?case
    by (auto simp: getall_setitem getall_fold_add_values getall_delitem
        split: if_splits sum.splits)
next
  case (2 pfx a rd v)
  then show ?case by simp
next
  case (3 pfx a fs rd v)
  from "3.prems"(1) obtain d where v: "v = PDict d"
    and s: "set_raw_value_fields (pfx @ name a @ ''.'') fs rd v = Inr rd1"
    by (auto split: pyval.splits)
  from "3.prems"(2) have "\<forall>g. BaseField g \<in> set fs \<longrightarrow>
      \<not> touches (pfx @ name a @ ''.'') (name (field_attrs g)) k"
    using touches_child by fastforce
  from "3.IH" [OF v s this] show ?case .
next
  case (4 pfx a f rd v)
  from "4.prems"(1) obtain n rdc where n: "py_len v = Inr n"
    and s: "set_raw_value_indices (pfx @ name a @ ''.'') f 1 n rd v = Inr rdc"
    and r: "rd1 = fold (\<lambda>i rd. add rd (pfx @ name a @ ''-indeces'') (PStr (string_of_nat i)))
                    [1 ..< Suc n] (delitem rdc (pfx @ name a @ ''-indeces''))"
    by (auto split: sum.splits)
  from "4.prems"(2) have "\<forall>j. 1 \<le> j \<and> j < 1 + n \<longrightarrow>
      \<not> touches (pfx @ name a @ ''.'') (string_of_nat j) k"
    using touches_child by fastforce
  from "4.IH" [OF n s this] have c: "getall rdc k = getall rd k" .
  from "4.prems"(2) have "k \<noteq> pfx @ name a @ ''-indeces''"
    using touches_indices [of pfx "name a"] by auto
  with r c show ?case by (simp add: getall_fold_add getall_delitem)
next
  case (5 pfx rd v)
  then show ?case by simp
next
  case (6 pfx f fs rd v)
  from "6.prems"(1) obtain b ba where b: "py_getitem v (name (field_attrs f)) = Inr b"
    and s: "set_raw_value pfx f rd (from_python (conv (field_attrs f)) b) = Inr ba"
    and r: "set_raw_value_fields pfx fs ba v = Inr rd1"
    by (auto split: sum.splits)
  from "6.prems"(2) have t: "\<not> touches pfx (name (field_attrs f)) k"
    and u: "\<forall>g. BaseField g \<in> set fs \<longrightarrow> \<not> touches pfx (name (field_attrs g)) k"
    by simp_all
  from "6.IH"(1) [OF b s t] "6.IH"(2) [OF b s r u] show ?case by simp
next
  case (8 pfx f index rd v)
  then show ?case by simp
next
  case (9 pfx f index count rd v)
  from "9.prems"(1) obtain b ba where b: "py_getitem v (string_of_nat index) = Inr b"
    and s: "set_raw_value pfx (with_name (string_of_nat index) f) rd
              (from_python (conv (field_attrs f)) b) = Inr ba"
    and r: "set_raw_value_indices pfx f (Suc index) count ba v = Inr rd1"
    by (auto split: sum.splits)
  from "9.prems"(2) have t: "\<not> touches pfx (name (field_attrs (with_name (string_of_nat index) f))) k"
    by simp
  from "9.prems"(2) have u: "\<forall>j. Suc index \<le> j \<and> j < Suc index + count \<longrightarrow>
      \<not> touches pfx (string_of_nat j) k"
    by simp
  from "9.IH"(1) [OF b s t] "9.IH"(2) [OF b s r u] show ?case by simp
qed simp_all








end
